theory Spec2Isabelle
  imports Main
begin

section \<open>JavaScript values used by the middleware\<close>

text \<open>
  A value that may be \<open>undefined\<close> or \<open>null\<close> is an option; \<open>None\<close> stands for both.
  A string is falsy when it is absent or empty, which is what \<open>!token\<close>, \<open>a || b\<close> and
  \<open>a && b\<close> test in the source.
\<close>

definition truthy :: "string option \<Rightarrow> bool" where
  "truthy v = (case v of None \<Rightarrow> False | Some s \<Rightarrow> s \<noteq> [])"

definition js_or :: "string option \<Rightarrow> string option \<Rightarrow> string option" where
  "js_or a b = (if truthy a then a else b)"

text \<open>\<open>s.split(c)\<close> for a one-character separator: always at least one segment.\<close>

fun split_on :: "char \<Rightarrow> string \<Rightarrow> string list" where
  "split_on c [] = [[]]"
| "split_on c (x # xs) =
     (if x = c then [] # split_on c xs
      else (case split_on c xs of
              [] \<Rightarrow> [[x]]
            | p # ps \<Rightarrow> (x # p) # ps))"

text \<open>
  Property lookup \<open>obj[key]\<close> on an object literal. A key that the literal does not define
  itself may still be found on \<open>Object.prototype\<close>; every such inherited value is truthy
  (a function, or the prototype object for \<open>__proto__\<close>), so \<open>obj[key] || dflt\<close> does not
  fall back to the default for it.
\<close>

datatype 'a js_prop = Own 'a | Inherited | Missing

definition object_prototype_keys :: "string list" where
  "object_prototype_keys =
     [''constructor'', ''__proto__'', ''hasOwnProperty'', ''isPrototypeOf'',
      ''propertyIsEnumerable'', ''toLocaleString'', ''toString'', ''valueOf'',
      ''__defineGetter__'', ''__defineSetter__'', ''__lookupGetter__'', ''__lookupSetter__'']"

definition js_get :: "(string \<times> 'a) list \<Rightarrow> string \<Rightarrow> 'a js_prop" where
  "js_get obj key =
     (case map_of obj key of
        Some v \<Rightarrow> Own v
      | None \<Rightarrow> if key \<in> set object_prototype_keys then Inherited else Missing)"

text \<open>\<open>Math.ceil(x / 1000)\<close> for an integer \<open>x\<close>.\<close>

definition ceil_div_1000 :: "int \<Rightarrow> int" where
  "ceil_div_1000 x = - ((- x) div 1000)"

datatype js_exception = TypeError

section \<open>Access control: \<open>checkRolePermission\<close> (middleware/auth.js)\<close>

definition roleHierarchy :: "(string \<times> string list) list" where
  "roleHierarchy =
     [(''admin'', [''admin'', ''manager'', ''client'']),
      (''manager'', [''manager'', ''client'']),
      (''client'', [''client''])]"

text \<open>
  \<open>allowedRoles.some(role => userPermissions.includes(role))\<close>: when \<open>userPermissions\<close> is an
  inherited property it has no \<open>includes\<close>, and the first call of the callback throws; on
  an empty \<open>allowedRoles\<close> the callback is never called.
\<close>

definition checkRolePermission :: "string \<Rightarrow> string list \<Rightarrow> bool \<Rightarrow> js_exception + bool" where
  "checkRolePermission userRole allowedRoles strictMode =
     (if userRole \<in> set allowedRoles then Inr True
      else if strictMode then Inr False
      else (case js_get roleHierarchy userRole of
              Own userPermissions \<Rightarrow> Inr (list_ex (\<lambda>role. role \<in> set userPermissions) allowedRoles)
            | Missing \<Rightarrow> Inr (list_ex (\<lambda>role. role \<in> set [userRole]) allowedRoles)
            | Inherited \<Rightarrow> (if allowedRoles = [] then Inr False else Inl TypeError)))"

text \<open>
  The hierarchy in the specification's words: admin above manager above client; a role
  dominates itself and every role below it. Roles outside the hierarchy dominate only
  themselves.
\<close>

definition role_rank :: "string \<Rightarrow> nat option" where
  "role_rank r =
     (if r = ''admin'' then Some 3
      else if r = ''manager'' then Some 2
      else if r = ''client'' then Some 1
      else None)"

definition dominates :: "string \<Rightarrow> string \<Rightarrow> bool" where
  "dominates r s =
     (r = s \<or> (case (role_rank r, role_rank s) of
                 (Some a, Some b) \<Rightarrow> b \<le> a
               | _ \<Rightarrow> False))"

section \<open>Data model\<close>

record request =
  req_ip :: "string option"
  req_remoteAddress :: "string option"
  req_authorization :: "string option"
  req_userAgent :: "string option"

text \<open>
  What a middleware passes to \<open>res.status(...).json(...)\<close>: the status, and of the body
  the \<open>code\<close> and \<open>retryAfter\<close> (the message, the time stamp and the details are left
  out). The fields are options because \<open>handleAuthError\<close> can hand back an object
  without them.
\<close>

record response =
  status :: "nat option"
  code :: "string option"
  retryAfter :: "int option"

text \<open>The object attached as \<open>req.user\<close>; fields that a variant does not set are \<open>None\<close>.\<close>

record principal =
  p_uid :: nat
  p_firebase_uid :: string
  p_email :: "string option"
  p_role :: string
  p_emailVerified :: "bool option"
  p_lastLogin :: "int option"
  p_ip :: "string option"
  p_userAgent :: "string option"

text \<open>
  A middleware either answers the request itself or calls \<open>next()\<close>; \<open>Next\<close> carries the
  principal it attached to the request, if any.
\<close>

datatype outcome = Respond response | Next "principal option"

text \<open>The identity provider's answers: the decoded token and the user data.\<close>

record decoded_token =
  tok_uid :: string
  tok_email :: "string option"
  tok_role :: "string option"
  tok_exp :: int
  tok_iat :: int
  tok_aud :: "string option"
  tok_iss :: "string option"

record user_data =
  ud_uid :: string
  ud_email :: "string option"
  ud_emailVerified :: bool
  ud_disabled :: bool

record auth_error =
  err_code :: "string option"
  err_message :: string

text \<open>
  The identity provider is a parameter of the middleware: \<open>auth.verifyIdToken(token,
  checkRevoked)\<close> and \<open>auth.getUser(uid)\<close>, each resolving to a value or rejecting with an
  error object.
\<close>

record provider =
  verifyIdToken :: "string \<Rightarrow> bool \<Rightarrow> auth_error + decoded_token"
  getUser :: "string \<Rightarrow> auth_error + user_data"

text \<open>A row of the \<open>users\<close> table; the store generates \<open>id\<close>, here a number.\<close>

record user_row =
  u_id :: nat
  u_email :: "string option"
  u_role :: string
  u_firebase_uid :: "string option"
  u_email_verified :: bool
  u_is_suspended :: bool
  u_last_login :: "int option"
  u_updated_at :: "int option"

record attempt =
  timestamp :: int
  reason :: string

text \<open>
  The module's process-wide state (\<open>failedAttempts\<close>, \<open>suspiciousIPs\<close>, \<open>blacklistedIPs\<close>),
  the \<open>users\<close> table behind the store client, and the number of calls made to the
  provider's verify operation. Client keys are \<open>req.ip || req.connection.remoteAddress\<close>,
  which can be \<open>undefined\<close>.
\<close>

record world =
  failedAttempts :: "string option \<Rightarrow> attempt list option"
  suspiciousIPs :: "string option \<Rightarrow> int option"
  blacklistedIPs :: "string option set"
  users :: "user_row list"
  verify_calls :: nat

definition client_ip :: "request \<Rightarrow> string option" where
  "client_ip req = js_or (req_ip req) (req_remoteAddress req)"

definition reply :: "nat \<Rightarrow> string \<Rightarrow> response" where
  "reply st cd = \<lparr>status = Some st, code = Some cd, retryAfter = None\<rparr>"

section \<open>The user store\<close>

text \<open>
  Modelled from the spec: the user store is an external collaborator (section 6: record
  CRUD keyed by internal id, external id and email, with a uniqueness constraint on
  external id and on email). A query ending in \<open>.single()\<close> yields the row when exactly
  one row matches and the error \<open>PGRST116\<close> otherwise; an insert or update that would
  break a uniqueness constraint is refused. The store is taken to be reachable: it raises
  no other error. The client writes a filter value into the query as text, so an
  \<open>undefined\<close> value is compared as the text \<open>undefined\<close>; it leaves an \<open>undefined\<close>
  field out of an insert or update, and an absent email never breaks uniqueness.
\<close>

datatype db_error = PGRST116 | UniqueViolation

definition select_single :: "(user_row \<Rightarrow> bool) \<Rightarrow> user_row list \<Rightarrow> db_error + user_row" where
  "select_single P us = (case filter P us of [r] \<Rightarrow> Inr r | _ \<Rightarrow> Inl PGRST116)"

definition eq_firebase_uid :: "string \<Rightarrow> user_row \<Rightarrow> bool" where
  "eq_firebase_uid fuid r = (u_firebase_uid r = Some fuid)"

definition eq_email :: "string option \<Rightarrow> user_row \<Rightarrow> bool" where
  "eq_email e r = (u_email r = Some (case e of None \<Rightarrow> ''undefined'' | Some s \<Rightarrow> s))"

definition email_taken :: "string option \<Rightarrow> user_row list \<Rightarrow> bool" where
  "email_taken e us = (case e of None \<Rightarrow> False | Some s \<Rightarrow> list_ex (eq_email (Some s)) us)"

definition eq_id :: "nat \<Rightarrow> user_row \<Rightarrow> bool" where
  "eq_id i r = (u_id r = i)"

definition fresh_id :: "user_row list \<Rightarrow> nat" where
  "fresh_id us = Suc (foldr max (map u_id us) 0)"

text \<open>\<open>.insert([{firebase_uid, email, role}]).select(...).single()\<close>\<close>

definition insert_user ::
  "string \<Rightarrow> string option \<Rightarrow> string \<Rightarrow> user_row list \<Rightarrow> db_error + (user_row \<times> user_row list)" where
  "insert_user fuid e rl us =
     (if list_ex (eq_firebase_uid fuid) us then Inl UniqueViolation
      else if email_taken e us then Inl UniqueViolation
      else (let r = \<lparr>u_id = fresh_id us, u_email = e, u_role = rl,
                       u_firebase_uid = Some fuid, u_email_verified = False,
                       u_is_suspended = False, u_last_login = None, u_updated_at = None\<rparr>
            in Inr (r, us @ [r])))"

text \<open>\<open>.update(fields).eq("id", i).select(...).single()\<close>, for an update that sets the external id.\<close>

definition update_by_id ::
  "nat \<Rightarrow> string \<Rightarrow> (user_row \<Rightarrow> user_row) \<Rightarrow> user_row list \<Rightarrow> (db_error + user_row) \<times> user_row list" where
  "update_by_id i fuid f us =
     (if list_ex (\<lambda>r. eq_firebase_uid fuid r \<and> u_id r \<noteq> i) us then (Inl UniqueViolation, us)
      else (let us' = map (\<lambda>r. if u_id r = i then f r else r) us
            in (select_single (eq_id i) us', us')))"

section \<open>Abuse tracker (middleware/auth.js)\<close>

text \<open>
  \<open>Date.now()\<close> is a parameter, in milliseconds; one run of a middleware reads one clock
  value.
\<close>

definition trackFailedAttempt :: "int \<Rightarrow> string option \<Rightarrow> string \<Rightarrow> world \<Rightarrow> world" where
  "trackFailedAttempt now ip rsn w =
     (let pushed = (case failedAttempts w ip of None \<Rightarrow> [] | Some a \<Rightarrow> a)
                     @ [\<lparr>timestamp = now, reason = rsn\<rparr>];
          attempts = (if length pushed > 10 then tl pushed else pushed);
          w1 = w\<lparr>failedAttempts := (failedAttempts w)(ip := Some attempts)\<rparr>;
          recentAttempts = filter (\<lambda>a. now - timestamp a < 15 * 60 * 1000) attempts
      in if length recentAttempts \<ge> 5
         then (let suspiciousCount = (case suspiciousIPs w1 ip of None \<Rightarrow> 0 | Some c \<Rightarrow> c)
               in w1\<lparr>suspiciousIPs := (suspiciousIPs w1)(ip := Some (suspiciousCount + 1))\<rparr>)
         else w1)"

text \<open>
  The two loops of \<open>cleanupSecurityData\<close> visit every entry of a map and keep, replace or
  delete it; each is the map rewritten entry by entry. The second loop reads the stored
  value of \<open>suspiciousIPs\<close> (which \<open>trackFailedAttempt\<close> writes as a count) under the name
  \<open>firstSuspicious\<close>.
\<close>

definition cleanupSecurityData :: "int \<Rightarrow> world \<Rightarrow> world" where
  "cleanupSecurityData now w =
     (let fifteenMinutesAgo = now - 15 * 60 * 1000;
          fa = (\<lambda>ip. case failedAttempts w ip of
                        None \<Rightarrow> None
                      | Some attempts \<Rightarrow>
                          (let recentAttempts = filter (\<lambda>a. timestamp a > fifteenMinutesAgo) attempts
                           in if length recentAttempts = 0 then None else Some recentAttempts));
          oneHourAgo = now - 60 * 60 * 1000;
          sus = (\<lambda>ip. case suspiciousIPs w ip of
                         None \<Rightarrow> None
                       | Some firstSuspicious \<Rightarrow>
                           if firstSuspicious < oneHourAgo then None else Some firstSuspicious)
      in w\<lparr>failedAttempts := fa, suspiciousIPs := sus\<rparr>)"

definition ipBlacklist :: "request \<Rightarrow> world \<Rightarrow> outcome \<times> world" where
  "ipBlacklist req w =
     (let ip = client_ip req in
      if ip \<in> blacklistedIPs w then (Respond (reply 403 ''IP_BLACKLISTED''), w)
      else (let suspiciousCount = (case suspiciousIPs w ip of None \<Rightarrow> 0 | Some c \<Rightarrow> c)
            in if suspiciousCount > 20
               then (Respond (reply 403 ''IP_SUSPICIOUS_BLOCKED''),
                     w\<lparr>blacklistedIPs := insert ip (blacklistedIPs w)\<rparr>)
               else (Next None, w)))"

section \<open>Token validator (middleware/auth.js)\<close>

text \<open>\<open>authHeader && authHeader.split(" ")[1]\<close>\<close>

definition extract_token :: "string option \<Rightarrow> string option" where
  "extract_token authHeader =
     (case authHeader of
        None \<Rightarrow> None
      | Some h \<Rightarrow>
          if h = [] then Some []
          else (case split_on CHR '' '' h of
                  _ # t # _ \<Rightarrow> Some t
                | _ \<Rightarrow> None))"

definition isValidJWTFormat :: "string option \<Rightarrow> bool" where
  "isValidJWTFormat token =
     (case token of
        None \<Rightarrow> False
      | Some t \<Rightarrow> t \<noteq> [] \<and> take 3 t = ''eyJ'' \<and> length (split_on CHR ''.'' t) = 3)"

text \<open>
  \<open>exp\<close> and \<open>iat\<close> are the integer seconds of a token the provider has verified; \<open>now\<close>
  is \<open>Math.floor(Date.now() / 1000)\<close>.
\<close>

definition isTokenValid :: "int \<Rightarrow> decoded_token \<Rightarrow> bool" where
  "isTokenValid now_ms decodedToken =
     (let now = now_ms div 1000 in
      if tok_exp decodedToken \<le> now then False
      else if tok_iat decodedToken > now + 60 then False
      else if \<not> truthy (tok_aud decodedToken) \<or> \<not> truthy (tok_iss decodedToken) then False
      else True)"

definition errorMap :: "(string \<times> nat \<times> string) list" where
  "errorMap =
     [(''auth/id-token-expired'', 401, ''TOKEN_EXPIRED''),
      (''auth/id-token-revoked'', 401, ''TOKEN_REVOKED''),
      (''auth/argument-error'', 401, ''TOKEN_INVALID''),
      (''auth/user-not-found'', 404, ''USER_NOT_FOUND''),
      (''auth/user-disabled'', 403, ''ACCOUNT_DISABLED'')]"

text \<open>
  \<open>errorMap[error.code] || {status: 401, ..., code: "AUTH_FAILED"}\<close>; an absent code is the
  property name \<open>undefined\<close>. An inherited property has neither \<open>status\<close> nor \<open>code\<close>.
\<close>

definition handleAuthError :: "auth_error \<Rightarrow> response" where
  "handleAuthError error =
     (case js_get errorMap (case err_code error of None \<Rightarrow> ''undefined'' | Some c \<Rightarrow> c) of
        Own (st, cd) \<Rightarrow> reply st cd
      | Inherited \<Rightarrow> \<lparr>status = None, code = None, retryAfter = None\<rparr>
      | Missing \<Rightarrow> reply 401 ''AUTH_FAILED'')"

section \<open>Identity reconciler and authentication middleware (middleware/auth.js)\<close>

text \<open>
  \<open>getSupabaseUser\<close> catches whatever it throws and returns \<open>null\<close>; a query error other
  than \<open>PGRST116\<close> is thrown inside it.
\<close>

definition getSupabaseUser :: "int \<Rightarrow> string \<Rightarrow> string option \<Rightarrow> world \<Rightarrow> user_row option \<times> world" where
  "getSupabaseUser now firebaseUid email w =
     (case select_single (eq_firebase_uid firebaseUid) (users w) of
        Inr user \<Rightarrow> (Some user, w)
      | Inl UniqueViolation \<Rightarrow> (None, w)
      | Inl PGRST116 \<Rightarrow>
          if truthy email
          then (case select_single (eq_email email) (users w) of
                  Inl emailError \<Rightarrow> (None, w)
                | Inr existingUser \<Rightarrow>
                    if truthy (u_firebase_uid existingUser) then (None, w)
                    else (case update_by_id (u_id existingUser) firebaseUid
                                 (\<lambda>r. r\<lparr>u_firebase_uid := Some firebaseUid, u_updated_at := Some now\<rparr>)
                                 (users w) of
                            (Inl updateError, us') \<Rightarrow> (None, w\<lparr>users := us'\<rparr>)
                          | (Inr updatedUser, us') \<Rightarrow> (Some updatedUser, w\<lparr>users := us'\<rparr>)))
          else (None, w))"

definition updateLastLogin :: "int \<Rightarrow> nat \<Rightarrow> world \<Rightarrow> world" where
  "updateLastLogin now userId w =
     w\<lparr>users := map (\<lambda>r. if u_id r = userId
                          then r\<lparr>u_last_login := Some now, u_updated_at := Some now\<rparr>
                          else r) (users w)\<rparr>"

text \<open>The \<open>catch\<close> block of \<open>authenticateToken\<close>: \<open>error.code || "AUTH_ERROR"\<close> is the reason logged.\<close>

definition authenticateToken_catch :: "int \<Rightarrow> string option \<Rightarrow> auth_error \<Rightarrow> world \<Rightarrow> outcome \<times> world" where
  "authenticateToken_catch now ip error w =
     (Respond (handleAuthError error),
      trackFailedAttempt now ip
        (case err_code error of
           None \<Rightarrow> ''AUTH_ERROR''
         | Some c \<Rightarrow> if c = [] then ''AUTH_ERROR'' else c) w)"

definition authenticateToken :: "provider \<Rightarrow> int \<Rightarrow> request \<Rightarrow> world \<Rightarrow> outcome \<times> world" where
  "authenticateToken P now req w =
     (let ip = client_ip req in
      case extract_token (req_authorization req) of
        None \<Rightarrow> (Respond (reply 401 ''TOKEN_MISSING''), trackFailedAttempt now ip ''NO_TOKEN'' w)
      | Some token \<Rightarrow>
          if token = []
          then (Respond (reply 401 ''TOKEN_MISSING''), trackFailedAttempt now ip ''NO_TOKEN'' w)
          else if \<not> isValidJWTFormat (Some token)
          then (Respond (reply 401 ''TOKEN_INVALID_FORMAT''),
                trackFailedAttempt now ip ''INVALID_FORMAT'' w)
          else (let w1 = w\<lparr>verify_calls := Suc (verify_calls w)\<rparr> in
                case verifyIdToken P token True of
                  Inl error \<Rightarrow> authenticateToken_catch now ip error w1
                | Inr decodedToken \<Rightarrow>
                    if \<not> isTokenValid now decodedToken
                    then (Respond (reply 401 ''TOKEN_CLAIMS_INVALID''),
                          trackFailedAttempt now ip ''TOKEN_INVALID'' w1)
                    else (case getUser P (tok_uid decodedToken) of
                            Inl error \<Rightarrow> authenticateToken_catch now ip error w1
                          | Inr userData \<Rightarrow>
                              if ud_disabled userData
                              then (Respond (reply 403 ''ACCOUNT_DISABLED''), w1)
                              else (case getSupabaseUser now (ud_uid userData)
                                           (js_or (ud_email userData) (tok_email decodedToken)) w1 of
                                      (None, w2) \<Rightarrow> (Respond (reply 404 ''USER_NOT_FOUND_DB''), w2)
                                    | (Some user, w2) \<Rightarrow>
                                        if u_role user = ''inactive'' \<or> u_is_suspended user
                                        then (Respond (reply 403 ''ACCOUNT_INACTIVE''), w2)
                                        else (let w3 = updateLastLogin now (u_id user) w2;
                                                  w4 = w3\<lparr>failedAttempts := (failedAttempts w3)(ip := None)\<rparr>
                                              in (Next (Some
                                                    \<lparr>p_uid = u_id user,
                                                     p_firebase_uid = ud_uid userData,
                                                     p_email = js_or (ud_email userData) (u_email user),
                                                     p_role = u_role user,
                                                     p_emailVerified =
                                                       Some (ud_emailVerified userData \<or> u_email_verified user),
                                                     p_lastLogin = Some now,
                                                     p_ip = ip,
                                                     p_userAgent = req_userAgent req\<rparr>), w4))))))"

text \<open>\<open>optionalAuth\<close> calls \<open>auth.verifyIdToken(token)\<close> without the revocation check.\<close>

definition optionalAuth :: "provider \<Rightarrow> int \<Rightarrow> request \<Rightarrow> world \<Rightarrow> outcome \<times> world" where
  "optionalAuth P now req w =
     (case extract_token (req_authorization req) of
        None \<Rightarrow> (Next None, w)
      | Some token \<Rightarrow>
          if token = [] then (Next None, w)
          else if \<not> isValidJWTFormat (Some token) then (Next None, w)
          else (let w1 = w\<lparr>verify_calls := Suc (verify_calls w)\<rparr> in
                case verifyIdToken P token False of
                  Inl error \<Rightarrow> (Next None, w1)
                | Inr decodedToken \<Rightarrow>
                    (case getUser P (tok_uid decodedToken) of
                       Inl error \<Rightarrow> (Next None, w1)
                     | Inr userData \<Rightarrow>
                         (case getSupabaseUser now (ud_uid userData) (ud_email userData) w1 of
                            (None, w2) \<Rightarrow> (Next None, w2)
                          | (Some user, w2) \<Rightarrow>
                              if u_role user \<noteq> ''inactive''
                              then (Next (Some
                                      \<lparr>p_uid = u_id user,
                                       p_firebase_uid = ud_uid userData,
                                       p_email = js_or (ud_email userData) (u_email user),
                                       p_role = u_role user,
                                       p_emailVerified = Some (ud_emailVerified userData),
                                       p_lastLogin = None,
                                       p_ip = None,
                                       p_userAgent = None\<rparr>), w2)
                              else (Next None, w2)))))"

section \<open>The simple middleware (the earlier middleware/auth.js)\<close>

text \<open>The \<open>catch\<close> block: three provider codes are told apart, everything else is \<open>AUTH_FAILED\<close>.\<close>

definition authenticateToken_simple_catch :: "string option \<Rightarrow> response" where
  "authenticateToken_simple_catch error_code =
     (if error_code = Some ''auth/id-token-expired'' then reply 401 ''TOKEN_EXPIRED''
      else if error_code = Some ''auth/argument-error'' then reply 401 ''TOKEN_INVALID''
      else if error_code = Some ''auth/id-token-revoked'' then reply 401 ''TOKEN_REVOKED''
      else reply 401 ''AUTH_FAILED'')"

definition simple_principal :: "user_data \<Rightarrow> user_row \<Rightarrow> principal" where
  "simple_principal userData user =
     \<lparr>p_uid = u_id user,
      p_firebase_uid = ud_uid userData,
      p_email = js_or (ud_email userData) (u_email user),
      p_role = u_role user,
      p_emailVerified = None,
      p_lastLogin = None,
      p_ip = None,
      p_userAgent = None\<rparr>"

text \<open>
  The look-up-or-create part of the simple \<open>authenticateToken\<close>. Every \<open>throw new Error(...)\<close>
  carries no \<open>code\<close> and ends in the \<open>catch\<close> block.
\<close>

definition authenticateToken_simple_reconcile ::
  "decoded_token \<Rightarrow> user_data \<Rightarrow> world \<Rightarrow> outcome \<times> world" where
  "authenticateToken_simple_reconcile decodedToken userData w =
     (let email = js_or (ud_email userData) (tok_email decodedToken) in
      case select_single (eq_firebase_uid (ud_uid userData)) (users w) of
        Inr user \<Rightarrow> (Next (Some (simple_principal userData user)), w)
      | Inl UniqueViolation \<Rightarrow> (Respond (authenticateToken_simple_catch None), w)
      | Inl PGRST116 \<Rightarrow>
          (case select_single (eq_email email) (users w) of
             Inl UniqueViolation \<Rightarrow> (Respond (authenticateToken_simple_catch None), w)
           | Inr existingUser \<Rightarrow>
               if truthy (u_firebase_uid existingUser)
               then (Respond (authenticateToken_simple_catch None), w)
               else (case update_by_id (u_id existingUser) (ud_uid userData)
                            (\<lambda>r. r\<lparr>u_firebase_uid := Some (ud_uid userData),
                                   u_email := (case email of None \<Rightarrow> u_email r | Some e \<Rightarrow> Some e)\<rparr>)
                            (users w) of
                       (Inl updateError, us') \<Rightarrow>
                         (Respond (authenticateToken_simple_catch None), w\<lparr>users := us'\<rparr>)
                     | (Inr updatedUser, us') \<Rightarrow>
                         (Next (Some (simple_principal userData updatedUser)), w\<lparr>users := us'\<rparr>))
           | Inl PGRST116 \<Rightarrow>
               (case insert_user (ud_uid userData) email
                       (case tok_role decodedToken of
                          None \<Rightarrow> ''client''
                        | Some r \<Rightarrow> if r = [] then ''client'' else r)
                       (users w) of
                  Inl createError \<Rightarrow> (Respond (authenticateToken_simple_catch None), w)
                | Inr (newUser, us') \<Rightarrow>
                    (Next (Some (simple_principal userData newUser)), w\<lparr>users := us'\<rparr>))))"

definition authenticateToken_simple :: "provider \<Rightarrow> request \<Rightarrow> world \<Rightarrow> outcome \<times> world" where
  "authenticateToken_simple P req w =
     (case extract_token (req_authorization req) of
        None \<Rightarrow> (Respond (reply 401 ''TOKEN_MISSING''), w)
      | Some token \<Rightarrow>
          if token = [] then (Respond (reply 401 ''TOKEN_MISSING''), w)
          else if take 3 token \<noteq> ''eyJ'' then (Respond (reply 401 ''TOKEN_INVALID_FORMAT''), w)
          else (let w1 = w\<lparr>verify_calls := Suc (verify_calls w)\<rparr> in
                case verifyIdToken P token False of
                  Inl error \<Rightarrow> (Respond (authenticateToken_simple_catch (err_code error)), w1)
                | Inr decodedToken \<Rightarrow>
                    (case getUser P (tok_uid decodedToken) of
                       Inl error \<Rightarrow> (Respond (authenticateToken_simple_catch (err_code error)), w1)
                     | Inr userData \<Rightarrow> authenticateToken_simple_reconcile decodedToken userData w1)))"

section \<open>Rate limiting\<close>

text \<open>The simple middleware's \<open>rateLimit\<close>, over the module's \<open>rateLimitStore\<close>.\<close>

record window =
  count :: int
  resetTime :: int

definition rate_key :: "request \<Rightarrow> string" where
  "rate_key req =
     (case js_or (js_or (req_ip req) (req_remoteAddress req)) (Some ''unknown'') of
        None \<Rightarrow> ''unknown''
      | Some k \<Rightarrow> k)"

definition rateLimit ::
  "int \<Rightarrow> int \<Rightarrow> request \<Rightarrow> int \<Rightarrow> (string \<Rightarrow> window option) \<Rightarrow> outcome \<times> (string \<Rightarrow> window option)" where
  "rateLimit maxRequests windowMs req now rateLimitStore =
     (let key = rate_key req in
      case rateLimitStore key of
        None \<Rightarrow> (Next None, rateLimitStore(key := Some \<lparr>count = 1, resetTime = now + windowMs\<rparr>))
      | Some userLimit \<Rightarrow>
          if now > resetTime userLimit
          then (Next None, rateLimitStore(key := Some \<lparr>count = 1, resetTime = now + windowMs\<rparr>))
          else if count userLimit \<ge> maxRequests
          then (Respond \<lparr>status = Some 429, code = Some ''RATE_LIMIT_EXCEEDED'',
                         retryAfter = Some (ceil_div_1000 (resetTime userLimit - now))\<rparr>,
                rateLimitStore)
          else (Next None, rateLimitStore(key := Some (userLimit\<lparr>count := count userLimit + 1\<rparr>))))"

text \<open>Requests of one client, one after the other, at the given clock values.\<close>

fun rateLimit_run ::
  "int \<Rightarrow> int \<Rightarrow> request \<Rightarrow> int list \<Rightarrow> (string \<Rightarrow> window option) \<Rightarrow> outcome list \<times> (string \<Rightarrow> window option)" where
  "rateLimit_run maxRequests windowMs req [] store = ([], store)"
| "rateLimit_run maxRequests windowMs req (now # nows) store =
     (case rateLimit maxRequests windowMs req now store of
        (out, store') \<Rightarrow>
          (case rateLimit_run maxRequests windowMs req nows store' of
             (outs, store'') \<Rightarrow> (out # outs, store'')))"





section \<open>Example inputs\<close>

text \<open>A freshly started process with an empty \<open>users\<close> table.\<close>

definition world0 :: world where
  "world0 = \<lparr>failedAttempts = (\<lambda>k. None), suspiciousIPs = (\<lambda>k. None),
              blacklistedIPs = {}, users = [], verify_calls = 0\<rparr>"

definition req_from :: "string \<Rightarrow> string option \<Rightarrow> request" where
  "req_from a h = \<lparr>req_ip = Some a, req_remoteAddress = None,
                   req_authorization = h, req_userAgent = None\<rparr>"

definition example_token :: string where
  "example_token = ''eyJhbGci.eyJ1aWQi.c2ln''"

definition expired_token :: string where
  "expired_token = ''eyJhbGci.eyJleHAi.c2ln''"

text \<open>A token carrying a custom \<open>role\<close> claim, valid at the clock value \<open>1000000\<close> ms.\<close>

definition example_decoded :: decoded_token where
  "example_decoded =
     \<lparr>tok_uid = ''uid-1'', tok_email = Some ''owner@example.com'', tok_role = Some ''admin'',
      tok_exp = 2000, tok_iat = 900, tok_aud = Some ''reviews'',
      tok_iss = Some ''https://securetoken.google.com/reviews''\<rparr>"

text \<open>The same claims with an expiration equal to the clock's second.\<close>

definition expired_decoded :: decoded_token where
  "expired_decoded = example_decoded\<lparr>tok_exp := 1000\<rparr>"

definition example_user :: user_data where
  "example_user =
     \<lparr>ud_uid = ''uid-1'', ud_email = Some ''owner@example.com'',
      ud_emailVerified = True, ud_disabled = False\<rparr>"

definition example_provider :: provider where
  "example_provider =
     \<lparr>verifyIdToken = (\<lambda>token checkRevoked.
          if token = example_token then Inr example_decoded
          else if token = expired_token then Inr expired_decoded
          else Inl \<lparr>err_code = Some ''auth/argument-error'',
                    err_message = ''Decoding Firebase ID token failed''\<rparr>),
      getUser = (\<lambda>uid.
          if uid = ''uid-1'' then Inr example_user
          else Inl \<lparr>err_code = Some ''auth/user-not-found'', err_message = ''no user record''\<rparr>)\<rparr>"

definition example_req :: request where
  "example_req = req_from ''198.51.100.7'' (Some (''Bearer '' @ example_token))"

definition expired_req :: request where
  "expired_req = req_from ''198.51.100.7'' (Some (''Bearer '' @ expired_token))"

text \<open>A table whose only row is the example user's, linked and suspended.\<close>

definition suspended_world :: world where
  "suspended_world =
     world0\<lparr>users := [\<lparr>u_id = 7, u_email = Some ''owner@example.com'', u_role = ''client'',
                         u_firebase_uid = Some ''uid-1'', u_email_verified = True,
                         u_is_suspended = True, u_last_login = None, u_updated_at = None\<rparr>]\<rparr>"

text \<open>Twenty-five failed attempts from one address at one clock value.\<close>

definition flagged_world :: world where
  "flagged_world =
     (trackFailedAttempt 1700000000000 (Some ''203.0.113.5'') ''NO_TOKEN'' ^^ 25) world0"

definition attacker_req :: request where
  "attacker_req = req_from ''203.0.113.5'' (Some (''Bearer '' @ example_token))"


text \<open>
  The row that the simple middleware inserts for a first login: the columns it passes
  to the insert, the generated id, and the other columns at their defaults.
\<close>

definition provisioned_row :: "decoded_token \<Rightarrow> user_data \<Rightarrow> user_row list \<Rightarrow> user_row" where
  "provisioned_row d u us =
     \<lparr>u_id = fresh_id us,
      u_email = js_or (ud_email u) (tok_email d),
      u_role = (case tok_role d of None \<Rightarrow> ''client'' | Some r \<Rightarrow> if r = [] then ''client'' else r),
      u_firebase_uid = Some (ud_uid u),
      u_email_verified = False, u_is_suspended = False,
      u_last_login = None, u_updated_at = None\<rparr>"

section \<open>Properties of the access control gate\<close>

lemma js_get_roleHierarchy_cases:
  "js_get roleHierarchy r =
     (if r = ''admin'' then Own [''admin'', ''manager'', ''client'']
      else if r = ''manager'' then Own [''manager'', ''client'']
      else if r = ''client'' then Own [''client'']
      else if r \<in> set object_prototype_keys then Inherited else Missing)"
  by (simp add: js_get_def roleHierarchy_def)

lemma dominates_admin: "dominates ''admin'' s \<longleftrightarrow> s = ''admin'' \<or> s = ''manager'' \<or> s = ''client''"
  by (auto simp: dominates_def role_rank_def split: option.splits if_splits)

lemma dominates_manager: "dominates ''manager'' s \<longleftrightarrow> s = ''manager'' \<or> s = ''client''"
  by (auto simp: dominates_def role_rank_def split: option.splits if_splits)

lemma dominates_client: "dominates ''client'' s \<longleftrightarrow> s = ''client''"
  by (auto simp: dominates_def role_rank_def split: option.splits if_splits)

lemma dominates_other:
  "r \<noteq> ''admin'' \<Longrightarrow> r \<noteq> ''manager'' \<Longrightarrow> r \<noteq> ''client'' \<Longrightarrow> dominates r s \<longleftrightarrow> s = r"
  by (auto simp: dominates_def role_rank_def split: option.splits if_splits)

lemma checkRolePermission_lenient:
  "checkRolePermission r allowed False = Inr True
     \<longleftrightarrow> r \<in> set allowed \<or> (\<exists>s. s \<in> set allowed \<and> dominates r s)"
proof (cases "r \<in> set allowed")
  case True
  then show ?thesis by (simp add: checkRolePermission_def)
next
  case out: False
  consider (a) "r = ''admin''" | (m) "r = ''manager''" | (c) "r = ''client''"
    | (o) "r \<noteq> ''admin''" "r \<noteq> ''manager''" "r \<noteq> ''client''"
    by blast
  then show ?thesis
  proof cases
    case a
    with out show ?thesis
      by (auto simp: checkRolePermission_def js_get_roleHierarchy_cases list_ex_iff dominates_admin)
  next
    case m
    with out show ?thesis
      by (auto simp: checkRolePermission_def js_get_roleHierarchy_cases list_ex_iff dominates_manager)
  next
    case c
    with out show ?thesis
      by (auto simp: checkRolePermission_def js_get_roleHierarchy_cases list_ex_iff dominates_client)
  next
    case o
    with out show ?thesis
      by (auto simp: checkRolePermission_def js_get_roleHierarchy_cases list_ex_iff dominates_other)
  qed
qed

lemma checkRolePermission_strict:
  "checkRolePermission r allowed True = Inr (r \<in> set allowed)"
  by (simp add: checkRolePermission_def)

text \<open>
  C5. The decision function allows admin on a client-only route in the lenient mode,
  refuses client on an admin-only route, and refuses admin on a client-only route in
  strict mode. In general it allows, in the lenient mode, exactly when the role is among
  the allowed roles or dominates one of them under admin, manager, client; in strict mode
  exactly when the role is among the allowed roles.
\<close>

theorem checkRolePermission_hierarchy:
  "checkRolePermission ''admin'' [''client''] False = Inr True
   \<and> checkRolePermission ''client'' [''admin''] False = Inr False
   \<and> checkRolePermission ''admin'' [''client''] True = Inr False
   \<and> (checkRolePermission r allowed False = Inr True
        \<longleftrightarrow> r \<in> set allowed \<or> (\<exists>s. s \<in> set allowed \<and> dominates r s))
   \<and> (checkRolePermission r allowed True = Inr True \<longleftrightarrow> r \<in> set allowed)"
proof -
  have c1: "checkRolePermission ''admin'' [''client''] False = Inr True"
    by (simp add: checkRolePermission_def js_get_roleHierarchy_cases)
  have c2: "checkRolePermission ''client'' [''admin''] False = Inr False"
    by (simp add: checkRolePermission_def js_get_roleHierarchy_cases)
  have c3: "checkRolePermission ''admin'' [''client''] True = Inr False"
    by (simp add: checkRolePermission_def)
  have c5: "checkRolePermission r allowed True = Inr True \<longleftrightarrow> r \<in> set allowed"
    by (simp add: checkRolePermission_strict)
  from c1 c2 c3 c5 checkRolePermission_lenient [of r allowed] show ?thesis
    by blast
qed

section \<open>Properties of the rate limiter\<close>

lemma rateLimit_fresh_window:
  assumes "case store (rate_key req) of None \<Rightarrow> True | Some u \<Rightarrow> now > resetTime u"
  shows "rateLimit m wms req now store
           = (Next None, store(rate_key req := Some \<lparr>count = 1, resetTime = now + wms\<rparr>))"
proof (cases "store (rate_key req)")
  case None
  then show ?thesis by (simp add: rateLimit_def Let_def)
next
  case (Some u)
  with assms have "now > resetTime u" by simp
  with Some show ?thesis by (simp add: rateLimit_def Let_def)
qed

lemma rateLimit_counts:
  assumes "store (rate_key req) = Some \<lparr>count = c, resetTime = rt\<rparr>" "now \<le> rt" "c < m"
  shows "rateLimit m wms req now store
           = (Next None, store(rate_key req := Some \<lparr>count = c + 1, resetTime = rt\<rparr>))"
  using assms by (simp add: rateLimit_def Let_def)

lemma rateLimit_rejects:
  assumes "store (rate_key req) = Some \<lparr>count = c, resetTime = rt\<rparr>" "now \<le> rt" "m \<le> c"
  shows "rateLimit m wms req now store
           = (Respond \<lparr>status = Some 429, code = Some ''RATE_LIMIT_EXCEEDED'',
                       retryAfter = Some (ceil_div_1000 (rt - now))\<rparr>, store)"
  using assms by (simp add: rateLimit_def Let_def)

text \<open>
  C8. With max = 5 and windowMs = 1000, six requests of one client key inside one
  window (the first one opening it, the others no later than its reset time) are
  answered by five calls of \<open>next()\<close> and one rejection, the sixth, with status 429; a
  seventh request after the reset time is let through and opens a new window with
  count 1.
\<close>

theorem rateLimit_six_then_seventh:
  assumes fresh: "case store (rate_key req) of None \<Rightarrow> True | Some u \<Rightarrow> t1 > resetTime u"
    and within: "t2 \<le> t1 + 1000" "t3 \<le> t1 + 1000" "t4 \<le> t1 + 1000"
      "t5 \<le> t1 + 1000" "t6 \<le> t1 + 1000"
    and later: "t7 > t1 + 1000"
  shows "fst (rateLimit_run 5 1000 req [t1, t2, t3, t4, t5, t6] store)
           = [Next None, Next None, Next None, Next None, Next None,
              Respond \<lparr>status = Some 429, code = Some ''RATE_LIMIT_EXCEEDED'',
                       retryAfter = Some (ceil_div_1000 (t1 + 1000 - t6))\<rparr>]
         \<and> rateLimit 5 1000 req t7 (snd (rateLimit_run 5 1000 req [t1, t2, t3, t4, t5, t6] store))
           = (Next None, (snd (rateLimit_run 5 1000 req [t1, t2, t3, t4, t5, t6] store))
                           (rate_key req := Some \<lparr>count = 1, resetTime = t7 + 1000\<rparr>))"
proof -
  let ?k = "rate_key req"
  define s1 where "s1 = store(?k := Some \<lparr>count = 1, resetTime = t1 + 1000\<rparr>)"
  define s2 where "s2 = s1(?k := Some \<lparr>count = 2, resetTime = t1 + 1000\<rparr>)"
  define s3 where "s3 = s2(?k := Some \<lparr>count = 3, resetTime = t1 + 1000\<rparr>)"
  define s4 where "s4 = s3(?k := Some \<lparr>count = 4, resetTime = t1 + 1000\<rparr>)"
  define s5 where "s5 = s4(?k := Some \<lparr>count = 5, resetTime = t1 + 1000\<rparr>)"
  have r1: "rateLimit 5 1000 req t1 store = (Next None, s1)"
    unfolding s1_def
    using rateLimit_fresh_window [where store=store and req=req and now=t1 and m=5 and wms=1000]
      fresh by simp
  have r2: "rateLimit 5 1000 req t2 s1 = (Next None, s2)"
    unfolding s2_def
    using rateLimit_counts [where store=s1 and req=req and c=1 and rt="t1 + 1000" and now=t2
        and m=5 and wms=1000] within
    by (simp add: s1_def)
  have r3: "rateLimit 5 1000 req t3 s2 = (Next None, s3)"
    unfolding s3_def
    using rateLimit_counts [where store=s2 and req=req and c=2 and rt="t1 + 1000" and now=t3
        and m=5 and wms=1000] within
    by (simp add: s2_def)
  have r4: "rateLimit 5 1000 req t4 s3 = (Next None, s4)"
    unfolding s4_def
    using rateLimit_counts [where store=s3 and req=req and c=3 and rt="t1 + 1000" and now=t4
        and m=5 and wms=1000] within
    by (simp add: s3_def)
  have r5: "rateLimit 5 1000 req t5 s4 = (Next None, s5)"
    unfolding s5_def
    using rateLimit_counts [where store=s4 and req=req and c=4 and rt="t1 + 1000" and now=t5
        and m=5 and wms=1000] within
    by (simp add: s4_def)
  have r6: "rateLimit 5 1000 req t6 s5 =
      (Respond \<lparr>status = Some 429, code = Some ''RATE_LIMIT_EXCEEDED'',
                retryAfter = Some (ceil_div_1000 (t1 + 1000 - t6))\<rparr>, s5)"
    using rateLimit_rejects [where store=s5 and req=req and c=5 and rt="t1 + 1000" and now=t6
        and m=5 and wms=1000] within
    by (simp add: s5_def)
  have r7: "rateLimit 5 1000 req t7 s5 =
      (Next None, s5(?k := Some \<lparr>count = 1, resetTime = t7 + 1000\<rparr>))"
    using rateLimit_fresh_window [where store=s5 and req=req and now=t7 and m=5 and wms=1000]
      later by (simp add: s5_def)
  have run: "rateLimit_run 5 1000 req [t1, t2, t3, t4, t5, t6] store =
      ([Next None, Next None, Next None, Next None, Next None,
        Respond \<lparr>status = Some 429, code = Some ''RATE_LIMIT_EXCEEDED'',
                 retryAfter = Some (ceil_div_1000 (t1 + 1000 - t6))\<rparr>], s5)"
    by (simp add: r1 r2 r3 r4 r5 r6)
  show ?thesis unfolding run by (simp add: r7)
qed

text \<open>
  An instance: requests at 0, 1, 2, 3, 4 and 1000 ms against an empty store, the last
  one exactly at the reset time, and a seventh at 1001 ms.
\<close>

theorem rateLimit_six_then_seventh_witness:
  "fst (rateLimit_run 5 1000 example_req [0, 1, 2, 3, 4, 1000] (\<lambda>k. None))
     = [Next None, Next None, Next None, Next None, Next None,
        Respond \<lparr>status = Some 429, code = Some ''RATE_LIMIT_EXCEEDED'', retryAfter = Some 0\<rparr>]
   \<and> fst (rateLimit 5 1000 example_req 1001
            (snd (rateLimit_run 5 1000 example_req [0, 1, 2, 3, 4, 1000] (\<lambda>k. None))))
     = Next None
   \<and> snd (rateLimit 5 1000 example_req 1001
            (snd (rateLimit_run 5 1000 example_req [0, 1, 2, 3, 4, 1000] (\<lambda>k. None))))
         (rate_key example_req)
     = Some \<lparr>count = 1, resetTime = 2001\<rparr>"
  using rateLimit_six_then_seventh [where store="\<lambda>k. None" and req=example_req
      and ?t1.0=0 and ?t2.0=1 and ?t3.0=2 and ?t4.0=3 and ?t5.0=4 and ?t6.0=1000 and ?t7.0=1001]
  by (simp add: ceil_div_1000_def)






section \<open>Properties of the abuse tracker\<close>

lemma trackFailedAttempt_frame [simp]:
  "verify_calls (trackFailedAttempt now ip rsn w) = verify_calls w"
  "users (trackFailedAttempt now ip rsn w) = users w"
  "blacklistedIPs (trackFailedAttempt now ip rsn w) = blacklistedIPs w"
  by (simp_all add: trackFailedAttempt_def Let_def)

lemma cleanupSecurityData_suspiciousIPs:
  "suspiciousIPs (cleanupSecurityData now w) ip
     = (case suspiciousIPs w ip of
          None \<Rightarrow> None
        | Some c \<Rightarrow> if c < now - 3600000 then None else Some c)"
  by (simp add: cleanupSecurityData_def Let_def)

lemma flagged_world_score: "suspiciousIPs flagged_world (Some ''203.0.113.5'') = Some 21"
  by (simp add: flagged_world_def eval_nat_numeral trackFailedAttempt_def world0_def Let_def)

lemma flagged_world_blacklist: "blacklistedIPs flagged_world = {}"
  by (simp add: flagged_world_def eval_nat_numeral world0_def)

lemma attacker_req_key: "client_ip attacker_req = Some ''203.0.113.5''"
  by (simp add: attacker_req_def req_from_def client_ip_def js_or_def truthy_def)

text \<open>
  C2, as the code has it. A request from a client key whose suspicion score exceeds 20
  is rejected by the blacklist check with status 403 whatever token it carries: with
  code IP_BLACKLISTED when the key is already in the blacklist, and otherwise with code
  IP_SUSPICIOUS_BLOCKED, the key being put into the blacklist, so that every later
  request from that key is rejected with IP_BLACKLISTED.
\<close>

theorem ipBlacklist_blocks_suspicious:
  assumes score: "suspiciousIPs w (client_ip req) = Some c" and over: "c > 20"
  shows "fst (ipBlacklist req w)
           = Respond (reply 403 (if client_ip req \<in> blacklistedIPs w
                                 then ''IP_BLACKLISTED'' else ''IP_SUSPICIOUS_BLOCKED''))
         \<and> client_ip req \<in> blacklistedIPs (snd (ipBlacklist req w))
         \<and> (\<forall>req'. client_ip req' = client_ip req \<longrightarrow>
               ipBlacklist req' (snd (ipBlacklist req w))
                 = (Respond (reply 403 ''IP_BLACKLISTED''), snd (ipBlacklist req w)))"
  using assms by (simp add: ipBlacklist_def Let_def)

text \<open>
  The specification names the code IP_BLACKLISTED for the first rejection already. After
  twenty-five failed attempts the score of 203.0.113.5 is 21, and the next request is
  rejected with IP_SUSPICIOUS_BLOCKED.
\<close>

theorem ipBlacklist_first_rejection_counterexample:
  "suspiciousIPs flagged_world (client_ip attacker_req) = Some 21
   \<and> fst (ipBlacklist attacker_req flagged_world) = Respond (reply 403 ''IP_SUSPICIOUS_BLOCKED'')
   \<and> fst (ipBlacklist attacker_req flagged_world) \<noteq> Respond (reply 403 ''IP_BLACKLISTED'')"
  by (simp add: ipBlacklist_def Let_def attacker_req_key flagged_world_score flagged_world_blacklist
      reply_def)

text \<open>
  An instance of the rejection and of the blacklisting that follows it.
\<close>

theorem ipBlacklist_blocks_suspicious_witness:
  "fst (ipBlacklist attacker_req flagged_world) = Respond (reply 403 ''IP_SUSPICIOUS_BLOCKED'')
   \<and> Some ''203.0.113.5'' \<in> blacklistedIPs (snd (ipBlacklist attacker_req flagged_world))
   \<and> ipBlacklist (req_from ''203.0.113.5'' None) (snd (ipBlacklist attacker_req flagged_world))
       = (Respond (reply 403 ''IP_BLACKLISTED''), snd (ipBlacklist attacker_req flagged_world))"
proof -
  have score: "suspiciousIPs flagged_world (client_ip attacker_req) = Some 21"
    by (simp add: attacker_req_key flagged_world_score)
  have same: "client_ip (req_from ''203.0.113.5'' None) = client_ip attacker_req"
    by (simp add: attacker_req_def req_from_def client_ip_def)
  from ipBlacklist_blocks_suspicious [OF score] same show ?thesis
    by (simp add: attacker_req_key flagged_world_blacklist)
qed

text \<open>
  C1. The sweep is meant to drop a suspicion entry once its first flagging is more than
  an hour old and to keep it, with its count, until then. The stored value is the count,
  and the sweep compares that count with the clock: an address flagged for the first
  time at 1700000000000 ms has lost its entry after a sweep one millisecond later.
\<close>

theorem cleanupSecurityData_drops_recent_suspicion:
  "suspiciousIPs ((trackFailedAttempt 1700000000000 (Some ''203.0.113.5'') ''NO_TOKEN'' ^^ 5) world0)
      (Some ''203.0.113.5'') = Some 1
   \<and> suspiciousIPs
       (cleanupSecurityData 1700000000001
          ((trackFailedAttempt 1700000000000 (Some ''203.0.113.5'') ''NO_TOKEN'' ^^ 5) world0))
       (Some ''203.0.113.5'') = None"
  by (simp add: eval_nat_numeral trackFailedAttempt_def cleanupSecurityData_def world0_def Let_def)

section \<open>Properties of the token validator\<close>

lemma example_req_token: "extract_token (req_authorization example_req) = Some example_token"
  by (simp add: example_req_def req_from_def extract_token_def example_token_def)

lemma expired_req_token: "extract_token (req_authorization expired_req) = Some expired_token"
  by (simp add: expired_req_def req_from_def extract_token_def expired_token_def)

lemma example_token_format: "isValidJWTFormat (Some example_token)"
  by (simp add: isValidJWTFormat_def example_token_def)

lemma expired_token_format: "isValidJWTFormat (Some expired_token)"
  by (simp add: isValidJWTFormat_def expired_token_def)

lemma example_provider_verify: "verifyIdToken example_provider example_token cr = Inr example_decoded"
  by (simp add: example_provider_def)

lemma example_provider_verify_expired:
  "verifyIdToken example_provider expired_token cr = Inr expired_decoded"
  by (simp add: example_provider_def example_token_def expired_token_def)

lemma example_provider_getUser: "getUser example_provider (tok_uid example_decoded) = Inr example_user"
  by (simp add: example_provider_def example_decoded_def)

lemma world0_users: "users world0 = []"
  by (simp add: world0_def)

text \<open>
  C6, as the code has it. A request whose token fails the structural check is answered
  with status 401 and the provider's verify operation is not called: the code is
  TOKEN_INVALID_FORMAT when a non-empty token is present (no \<open>eyJ\<close> prefix, or not three
  segments separated by dots) and TOKEN_MISSING when the token is missing or empty.
\<close>

theorem authenticateToken_rejects_malformed:
  assumes bad: "\<not> isValidJWTFormat (extract_token (req_authorization req))"
  shows "fst (authenticateToken P now req w)
           = Respond (reply 401 (if truthy (extract_token (req_authorization req))
                                 then ''TOKEN_INVALID_FORMAT'' else ''TOKEN_MISSING''))
         \<and> verify_calls (snd (authenticateToken P now req w)) = verify_calls w"
proof (cases "extract_token (req_authorization req)")
  case None
  then show ?thesis by (simp add: authenticateToken_def Let_def truthy_def)
next
  case (Some t)
  show ?thesis
  proof (cases "t = []")
    case True
    with Some show ?thesis by (simp add: authenticateToken_def Let_def truthy_def)
  next
    case False
    with Some bad show ?thesis by (simp add: authenticateToken_def Let_def truthy_def)
  qed
qed

text \<open>
  The specification gives TOKEN_INVALID_FORMAT to a missing token as well; a request
  without an Authorization header is answered with TOKEN_MISSING.
\<close>

theorem authenticateToken_missing_token_counterexample:
  "\<not> isValidJWTFormat (extract_token (req_authorization (req_from ''198.51.100.7'' None)))
   \<and> fst (authenticateToken example_provider 1000000 (req_from ''198.51.100.7'' None) world0)
       = Respond (reply 401 ''TOKEN_MISSING'')
   \<and> fst (authenticateToken example_provider 1000000 (req_from ''198.51.100.7'' None) world0)
       \<noteq> Respond (reply 401 ''TOKEN_INVALID_FORMAT'')"
  by (simp add: authenticateToken_def req_from_def extract_token_def isValidJWTFormat_def Let_def
      reply_def)

text \<open>
  An instance: the token \<open>not.a.jwt\<close>.
\<close>

theorem authenticateToken_rejects_malformed_witness:
  "fst (authenticateToken example_provider 1000000
          (req_from ''198.51.100.7'' (Some ''Bearer not.a.jwt'')) world0)
     = Respond (reply 401 ''TOKEN_INVALID_FORMAT'')
   \<and> verify_calls (snd (authenticateToken example_provider 1000000
          (req_from ''198.51.100.7'' (Some ''Bearer not.a.jwt'')) world0)) = 0"
proof -
  have tok: "extract_token (req_authorization (req_from ''198.51.100.7'' (Some ''Bearer not.a.jwt'')))
               = Some ''not.a.jwt''"
    by (simp add: req_from_def extract_token_def)
  have bad: "\<not> isValidJWTFormat (extract_token
                (req_authorization (req_from ''198.51.100.7'' (Some ''Bearer not.a.jwt''))))"
    unfolding tok by (simp add: isValidJWTFormat_def)
  from authenticateToken_rejects_malformed [OF bad, of example_provider 1000000 world0]
  show ?thesis by (simp add: tok truthy_def world0_def)
qed

lemma handleAuthError_code: "code (handleAuthError e) \<noteq> Some ''TOKEN_CLAIMS_INVALID''"
  by (simp add: handleAuthError_def js_get_def errorMap_def reply_def split: option.splits)

lemma isTokenValid_iff:
  "isTokenValid now d \<longleftrightarrow>
     tok_exp d > now div 1000 \<and> tok_iat d \<le> now div 1000 + 60 \<and> truthy (tok_aud d) \<and> truthy (tok_iss d)"
  by (auto simp: isTokenValid_def Let_def)

lemma reply_eq_iff: "reply s c = reply s' c' \<longleftrightarrow> s = s' \<and> c = c'"
  by (simp add: reply_def)

lemma handleAuthError_not_claims: "handleAuthError e \<noteq> reply 401 ''TOKEN_CLAIMS_INVALID''"
  using handleAuthError_code [of e] by (auto simp: reply_def)

text \<open>
  C7. Once the provider has verified the token, its claims are accepted exactly when
  the expiration lies strictly after the current second, the issued-at time is at most
  60 seconds ahead of it, and audience and issuer are both present and non-empty. The
  middleware answers 401 with code TOKEN_CLAIMS_INVALID exactly when they are not
  accepted, and no error reported by the provider is mapped to that code.
\<close>

theorem authenticateToken_claims:
  assumes tok: "extract_token (req_authorization req) = Some t"
    and fmt: "isValidJWTFormat (Some t)"
    and ver: "verifyIdToken P t True = Inr d"
  shows "(isTokenValid now d \<longleftrightarrow>
            tok_exp d > now div 1000 \<and> tok_iat d \<le> now div 1000 + 60
            \<and> truthy (tok_aud d) \<and> truthy (tok_iss d))
         \<and> (fst (authenticateToken P now req w) = Respond (reply 401 ''TOKEN_CLAIMS_INVALID'')
              \<longleftrightarrow> \<not> isTokenValid now d)
         \<and> (\<forall>e. code (handleAuthError e) \<noteq> Some ''TOKEN_CLAIMS_INVALID'')"
proof -
  from fmt have ne: "t \<noteq> []" by (simp add: isValidJWTFormat_def)
  have resp: "fst (authenticateToken P now req w) = Respond (reply 401 ''TOKEN_CLAIMS_INVALID'')
              \<longleftrightarrow> \<not> isTokenValid now d"
  proof (cases "isTokenValid now d")
    case False
    with tok fmt ver ne show ?thesis by (simp add: authenticateToken_def Let_def)
  next
    case True
    with tok fmt ver ne have "fst (authenticateToken P now req w) \<noteq> Respond (reply 401 ''TOKEN_CLAIMS_INVALID'')"
      by (auto simp: authenticateToken_def Let_def authenticateToken_catch_def handleAuthError_not_claims reply_eq_iff
          split: sum.splits prod.splits option.splits)
    with True show ?thesis by simp
  qed
  from resp isTokenValid_iff [of now d] handleAuthError_code show ?thesis by blast
qed

text \<open>
  An instance: a token whose expiration equals the current second.
\<close>

theorem authenticateToken_claims_witness:
  "\<not> isTokenValid 1000000 expired_decoded
   \<and> fst (authenticateToken example_provider 1000000 expired_req world0)
       = Respond (reply 401 ''TOKEN_CLAIMS_INVALID'')"
proof -
  have inv: "\<not> (tok_exp expired_decoded > 1000000 div 1000)"
    by (simp add: expired_decoded_def)
  from authenticateToken_claims [OF expired_req_token expired_token_format
      example_provider_verify_expired, of 1000000 world0] inv
  show ?thesis by simp
qed

section \<open>Properties of the identity reconciler\<close>

lemma select_single_none:
  "\<not> list_ex P us \<Longrightarrow> select_single P us = Inl PGRST116"
  by (simp add: select_single_def list_ex_iff filter_empty_conv[THEN iffD2])

lemma select_single_appended:
  "\<not> list_ex P us \<Longrightarrow> P r \<Longrightarrow> select_single P (us @ [r]) = Inr r"
  by (simp add: select_single_def list_ex_iff filter_empty_conv[THEN iffD2])

lemma reconcile_provisions:
  assumes nouid: "\<not> list_ex (eq_firebase_uid (ud_uid u)) (users w)"
    and noemail: "\<not> list_ex (eq_email (js_or (ud_email u) (tok_email d))) (users w)"
  shows "authenticateToken_simple_reconcile d u w
           = (Next (Some (simple_principal u (provisioned_row d u (users w)))),
              w\<lparr>users := users w @ [provisioned_row d u (users w)]\<rparr>)"
proof -
  from noemail have free: "\<not> email_taken (js_or (ud_email u) (tok_email d)) (users w)"
    by (cases "js_or (ud_email u) (tok_email d)") (simp_all add: email_taken_def)
  from nouid noemail free show ?thesis
    by (simp add: authenticateToken_simple_reconcile_def Let_def select_single_none insert_user_def
          provisioned_row_def)
qed

lemma reconcile_finds:
  assumes "select_single (eq_firebase_uid (ud_uid u)) (users w) = Inr r"
  shows "authenticateToken_simple_reconcile d u w = (Next (Some (simple_principal u r)), w)"
  using assms by (simp add: authenticateToken_simple_reconcile_def Let_def)

lemma getSupabaseUser_none:
  assumes nouid: "\<not> list_ex (eq_firebase_uid fuid) (users w)"
    and noemail: "\<not> list_ex (eq_email e) (users w)"
  shows "getSupabaseUser now fuid e w = (None, w)"
  using assms by (simp add: getSupabaseUser_def select_single_none)

lemma simple_to_reconcile:
  assumes tok: "extract_token (req_authorization req) = Some t"
    and pre: "take 3 t = ''eyJ''"
    and ver: "verifyIdToken P t False = Inr d"
    and usr: "getUser P (tok_uid d) = Inr u"
  shows "authenticateToken_simple P req w
           = authenticateToken_simple_reconcile d u (w\<lparr>verify_calls := Suc (verify_calls w)\<rparr>)"
proof -
  from pre have "t \<noteq> []" by auto
  with assms show ?thesis by (simp add: authenticateToken_simple_def Let_def)
qed

text \<open>
  C3, as the code has it. When no user record is found by external identity id and
  none by email, the simple middleware inserts a record whose role is the token's role
  claim when that claim is present and non-empty, and "client" otherwise, and attaches
  a principal for that record; the production middleware inserts nothing and answers
  404 with code USER_NOT_FOUND_DB.
\<close>

theorem authenticateToken_provisions:
  assumes tok: "extract_token (req_authorization req) = Some t"
    and fmt: "take 3 t = ''eyJ''"
    and usr: "getUser P (tok_uid d) = Inr u"
    and nouid: "\<not> list_ex (eq_firebase_uid (ud_uid u)) (users w)"
    and noemail: "\<not> list_ex (eq_email (js_or (ud_email u) (tok_email d))) (users w)"
  shows "(verifyIdToken P t False = Inr d \<longrightarrow>
            authenticateToken_simple P req w
              = (Next (Some (simple_principal u (provisioned_row d u (users w)))),
                 w\<lparr>users := users w @ [provisioned_row d u (users w)],
                   verify_calls := Suc (verify_calls w)\<rparr>)
            \<and> u_role (provisioned_row d u (users w))
                = (if truthy (tok_role d) then the (tok_role d) else ''client''))
         \<and> (isValidJWTFormat (Some t) \<and> verifyIdToken P t True = Inr d \<and> isTokenValid now d
              \<and> \<not> ud_disabled u \<longrightarrow>
            authenticateToken P now req w
              = (Respond (reply 404 ''USER_NOT_FOUND_DB''),
                 w\<lparr>verify_calls := Suc (verify_calls w)\<rparr>))"
proof (intro conjI impI)
  assume ver: "verifyIdToken P t False = Inr d"
  show "authenticateToken_simple P req w
          = (Next (Some (simple_principal u (provisioned_row d u (users w)))),
             w\<lparr>users := users w @ [provisioned_row d u (users w)],
               verify_calls := Suc (verify_calls w)\<rparr>)"
    using simple_to_reconcile [OF tok fmt ver usr, of w]
      reconcile_provisions [where u=u and d=d and w="w\<lparr>verify_calls := Suc (verify_calls w)\<rparr>"]
      nouid noemail
    by simp
  show "u_role (provisioned_row d u (users w))
          = (if truthy (tok_role d) then the (tok_role d) else ''client'')"
    by (simp add: provisioned_row_def truthy_def split: option.splits)
next
  assume a: "isValidJWTFormat (Some t) \<and> verifyIdToken P t True = Inr d \<and> isTokenValid now d
              \<and> \<not> ud_disabled u"
  from fmt have ne: "t \<noteq> []" by auto
  have g: "getSupabaseUser now (ud_uid u) (js_or (ud_email u) (tok_email d))
             (w\<lparr>verify_calls := Suc (verify_calls w)\<rparr>)
           = (None, w\<lparr>verify_calls := Suc (verify_calls w)\<rparr>)"
    using nouid noemail by (simp add: getSupabaseUser_none)
  from a tok usr ne g show "authenticateToken P now req w
          = (Respond (reply 404 ''USER_NOT_FOUND_DB''), w\<lparr>verify_calls := Suc (verify_calls w)\<rparr>)"
    by (simp add: authenticateToken_def Let_def)
qed

text \<open>
  The specification makes the role "client" whatever the token says. A first login
  with a token whose role claim is "admin" creates an admin record.
\<close>

theorem authenticateToken_simple_role_claim_counterexample:
  "fst (authenticateToken_simple example_provider example_req world0)
     = Next (Some \<lparr>p_uid = 1, p_firebase_uid = ''uid-1'', p_email = Some ''owner@example.com'',
                    p_role = ''admin'', p_emailVerified = None, p_lastLogin = None,
                    p_ip = None, p_userAgent = None\<rparr>)
   \<and> map u_role (users (snd (authenticateToken_simple example_provider example_req world0)))
       = [''admin'']"
  by (simp add: authenticateToken_simple_def example_req_token example_token_def
      example_provider_def authenticateToken_simple_reconcile_def Let_def world0_def
      select_single_def insert_user_def example_decoded_def example_user_def fresh_id_def
      simple_principal_def js_or_def truthy_def eq_email_def eq_firebase_uid_def email_taken_def)

text \<open>
  An instance: the first login of the example user against an empty table.
\<close>

theorem authenticateToken_provisions_witness:
  "fst (authenticateToken_simple example_provider example_req world0)
     = Next (Some (simple_principal example_user (provisioned_row example_decoded example_user [])))
   \<and> u_role (provisioned_row example_decoded example_user []) = ''admin''
   \<and> fst (authenticateToken example_provider 1000000 example_req world0)
       = Respond (reply 404 ''USER_NOT_FOUND_DB'')"
proof -
  have pre: "take 3 example_token = ''eyJ''" by (simp add: example_token_def)
  have valid: "isTokenValid 1000000 example_decoded"
    by (simp add: isTokenValid_def example_decoded_def truthy_def)
  have enabled: "\<not> ud_disabled example_user" by (simp add: example_user_def)
  have nouid: "\<not> list_ex (eq_firebase_uid (ud_uid example_user)) (users world0)"
    by (simp add: world0_users)
  have noemail: "\<not> list_ex (eq_email (js_or (ud_email example_user) (tok_email example_decoded)))
                     (users world0)"
    by (simp add: world0_users)
  have role: "truthy (tok_role example_decoded) \<and> the (tok_role example_decoded) = ''admin''"
    by (simp add: example_decoded_def truthy_def)
  from authenticateToken_provisions [OF example_req_token pre example_provider_getUser nouid noemail,
      of 1000000]
    example_provider_verify example_token_format valid enabled role
  show ?thesis by (simp add: world0_users)
qed

text \<open>
  C10. Two successive first logins with the same external identity and email, when no
  record matches, create one record: the first call inserts it, the look-up by external
  identity id then finds it, and the second call leaves the table as it is and attaches
  the same principal.
\<close>

theorem authenticateToken_simple_idempotent:
  assumes tok: "extract_token (req_authorization req) = Some t"
    and fmt: "take 3 t = ''eyJ''"
    and ver: "verifyIdToken P t False = Inr d"
    and usr: "getUser P (tok_uid d) = Inr u"
    and nouid: "\<not> list_ex (eq_firebase_uid (ud_uid u)) (users w)"
    and noemail: "\<not> list_ex (eq_email (js_or (ud_email u) (tok_email d))) (users w)"
  shows "length (users (snd (authenticateToken_simple P req w))) = Suc (length (users w))
         \<and> select_single (eq_firebase_uid (ud_uid u)) (users (snd (authenticateToken_simple P req w)))
             = Inr (provisioned_row d u (users w))
         \<and> users (snd (authenticateToken_simple P req (snd (authenticateToken_simple P req w))))
             = users (snd (authenticateToken_simple P req w))
         \<and> fst (authenticateToken_simple P req (snd (authenticateToken_simple P req w)))
             = fst (authenticateToken_simple P req w)
         \<and> fst (authenticateToken_simple P req w)
             = Next (Some (simple_principal u (provisioned_row d u (users w))))"
proof -
  let ?row = "provisioned_row d u (users w)"
  let ?w1 = "w\<lparr>users := users w @ [?row], verify_calls := Suc (verify_calls w)\<rparr>"
  have first: "authenticateToken_simple P req w = (Next (Some (simple_principal u ?row)), ?w1)"
    using simple_to_reconcile [OF tok fmt ver usr, of w]
      reconcile_provisions [where u=u and d=d and w="w\<lparr>verify_calls := Suc (verify_calls w)\<rparr>"]
      nouid noemail
    by simp
  have found: "select_single (eq_firebase_uid (ud_uid u)) (users w @ [?row]) = Inr ?row"
    using nouid by (simp add: select_single_appended eq_firebase_uid_def provisioned_row_def)
  have second: "authenticateToken_simple P req ?w1
                  = (Next (Some (simple_principal u ?row)), ?w1\<lparr>verify_calls := Suc (verify_calls ?w1)\<rparr>)"
    using simple_to_reconcile [OF tok fmt ver usr, of ?w1]
      reconcile_finds [where u=u and d=d and r="?row" and w="?w1\<lparr>verify_calls := Suc (verify_calls ?w1)\<rparr>"]
      found
    by simp
  show ?thesis
    unfolding first using found second by simp
qed

text \<open>
  An instance: the example user logging in twice against an empty table.
\<close>

theorem authenticateToken_simple_idempotent_witness:
  "length (users (snd (authenticateToken_simple example_provider example_req world0))) = 1
   \<and> users (snd (authenticateToken_simple example_provider example_req
                   (snd (authenticateToken_simple example_provider example_req world0))))
       = users (snd (authenticateToken_simple example_provider example_req world0))
   \<and> fst (authenticateToken_simple example_provider example_req
            (snd (authenticateToken_simple example_provider example_req world0)))
       = fst (authenticateToken_simple example_provider example_req world0)"
proof -
  have pre: "take 3 example_token = ''eyJ''" by (simp add: example_token_def)
  have nouid: "\<not> list_ex (eq_firebase_uid (ud_uid example_user)) (users world0)"
    by (simp add: world0_users)
  have noemail: "\<not> list_ex (eq_email (js_or (ud_email example_user) (tok_email example_decoded)))
                     (users world0)"
    by (simp add: world0_users)
  from authenticateToken_simple_idempotent [OF example_req_token pre example_provider_verify
      example_provider_getUser nouid noemail]
  show ?thesis by (simp add: world0_users)
qed

section \<open>Properties of the optional authentication\<close>

lemma optionalAuth_calls_next: "\<exists>p. fst (optionalAuth P now req w) = Next p"
  by (simp add: optionalAuth_def Let_def split: option.splits sum.splits prod.splits)

text \<open>
  C4. \<open>optionalAuth\<close> should attach no principal when the resolved record is suspended.
  It tests the role only: for a valid token of a user whose record is suspended it
  attaches that user's principal, where \<open>authenticateToken\<close> answers 403 with code
  ACCOUNT_INACTIVE.
\<close>

theorem optionalAuth_attaches_suspended:
  "fst (optionalAuth example_provider 1000000 example_req suspended_world)
     = Next (Some \<lparr>p_uid = 7, p_firebase_uid = ''uid-1'', p_email = Some ''owner@example.com'',
                    p_role = ''client'', p_emailVerified = Some True, p_lastLogin = None,
                    p_ip = None, p_userAgent = None\<rparr>)
   \<and> fst (authenticateToken example_provider 1000000 example_req suspended_world)
       = Respond (reply 403 ''ACCOUNT_INACTIVE'')"
proof -
  have ne: "example_token \<noteq> []" by (simp add: example_token_def)
  have valid: "isTokenValid 1000000 example_decoded"
    by (simp add: isTokenValid_def example_decoded_def truthy_def)
  have found: "getSupabaseUser 1000000 ''uid-1'' e (suspended_world\<lparr>verify_calls := n\<rparr>)
      = (Some \<lparr>u_id = 7, u_email = Some ''owner@example.com'', u_role = ''client'',
                u_firebase_uid = Some ''uid-1'', u_email_verified = True,
                u_is_suspended = True, u_last_login = None, u_updated_at = None\<rparr>,
         suspended_world\<lparr>verify_calls := n\<rparr>)" for e n
    by (simp add: getSupabaseUser_def suspended_world_def world0_def select_single_def
        eq_firebase_uid_def)
  have ud: "ud_uid example_user = ''uid-1''" by (simp add: example_user_def)
  show ?thesis
    by (simp add: optionalAuth_def authenticateToken_def example_req_token ne example_token_format
        example_provider_verify example_provider_getUser Let_def valid ud found
        example_user_def js_or_def truthy_def)
qed

end
